theory Spec2Isabelle
  imports Main "HOL-Library.Word"
begin

section \<open>The CPU callback boundary: xla/python/callback.cc\<close>

subsection \<open>Data\<close>

text \<open>
  \<open>xla::PrimitiveType\<close>: the element types a callback slot can declare. Only the
  test against \<open>TOKEN\<close> matters to callback.cc; the byte width of the others is asked
  of \<open>primitive_util::ByteWidth\<close>.
\<close>

datatype PrimitiveType =
    PRIMITIVE_TYPE_INVALID | PRED
  | S8 | S16 | S32 | S64 | U8 | U16 | U32 | U64
  | F16 | F32 | F64 | BF16 | C64 | C128
  | TUPLE | OPAQUE_TYPE | TOKEN

type_synonym bytes = "8 word list"

text \<open>
  A numpy array as callback.cc reads it: \<open>array.shape()\<close> and \<open>array.strides()\<close>
  (both of length \<open>array.ndim()\<close>), \<open>array.data()\<close>, and the dtype and the
  \<open>writeable\<close> flag the argument loop sets.
\<close>

record ndarray =
  nd_dtype :: string
  nd_shape :: "int list"
  nd_strides :: "int list"
  nd_data :: bytes
  nd_writeable :: bool

text \<open>
  The Python values the boundary tells apart: \<open>None\<close>, a tuple, an array, and any
  other object (named by a label).
\<close>

datatype py_object =
    PyNone
  | PyTuple "py_object list"
  | PyArray ndarray
  | PyOther string

text \<open>\<open>CpuCallback::Arg\<close> and \<open>CpuCallback::Result\<close>, with the fields callback.cc reads.\<close>

record Arg =
  arg_type :: PrimitiveType
  arg_dtype :: string
  arg_dims :: "int list"
  arg_strides :: "int list"

record Result =
  res_type :: PrimitiveType
  expected_dims :: "int list"
  expected_strides :: "int list"
  reversed_layout :: "int list"
  size_in_bytes :: nat

text \<open>
  \<open>TransposePlan::Options\<close>: the four fields the copy-out step assigns (the others keep
  their defaults). \<open>input_layout\<close> is a variant; the copy-out step always stores a
  \<open>Striding\<close>.
\<close>

datatype input_layout = Tiling "int list" | Striding "int list"

record Options =
  elem_size_in_bytes :: nat
  dims :: "int list"
  permutation :: "int list"
  input_layout :: input_layout

text \<open>
  The failures the boundary reports. Each constructor stands for one
  \<open>absl::InternalError(absl::StrFormat(...))\<close> of the source, with the values the format
  string is filled with; \<open>TransposePlanFailure\<close> is the status the plan store returned.
  \<^item> \<open>CpuCallbackError e\<close>: "CpuCallback error: %s"
  \<^item> \<open>ExpectedTupleResult r\<close>: "CPU callback expected a tuple result, got %s"
  \<^item> \<open>ExpectedResults n m\<close>: "CPU callback expected a tuple with %d results, got %d"
  \<^item> \<open>TokenOutputNotNone r\<close>: "Token output from Python callback should be None, got %s"
  \<^item> \<open>MismatchedResultShape i exp got\<close>: "Mismatched result shape for %d-th return value
    from CPU callback; expected array with dimensions %s, got %s"
\<close>

datatype message =
    CpuCallbackError string
  | ExpectedTupleResult string
  | ExpectedResults nat nat
  | TokenOutputNotNone string
  | MismatchedResultShape nat "int list" "int list"
  | TransposePlanFailure string

datatype Status = OkStatus | Error message

text \<open>
  A C++ call returns, leaves by an exception, or has no defined behaviour. \<open>Thrown e\<close> is
  an exception that propagates out of the function (\<open>e\<close> is its \<open>what()\<close>). \<open>Undefined\<close>
  is a read or a write outside a buffer the caller supplied.
\<close>

datatype 'a outcome = Returned 'a | Thrown string | Undefined

text \<open>
  \<open>XlaCustomCallStatus\<close>: the out-of-band status slot. \<open>None\<close> is a slot no failure was
  recorded in.
\<close>

type_synonym XlaCustomCallStatus = "message option"

definition XlaCustomCallStatusSetFailure :: "XlaCustomCallStatus \<Rightarrow> message \<Rightarrow> XlaCustomCallStatus" where
  "XlaCustomCallStatusSetFailure status msg = Some msg"

text \<open>
  A conversion of a tuple element to an array runs Python code, so two conversions of the
  same element need not agree. callback.cc converts element \<open>i\<close> once in the validation
  loop of \<open>CallInternal\<close> (line 137) and once more in the copy-out loop (line 65); each
  conversion of one call is named by where it happens.
\<close>

datatype conversion = Validation nat | CopyOut nat

text \<open>
  The library calls of callback.cc, whose code is not part of these sources, are
  parameters of the model. Each stands for what the call does during one invocation of
  the boundary; \<open>Inl e\<close> is the call throwing (\<open>py::error_already_set\<close>):
  \<^item> \<open>py_array i dtype dims strides data\<close> is the constructor \<open>py::array(...)\<close> of line 54,
    for argument \<open>i\<close>;
  \<^item> \<open>py_set_writeable i a b\<close> is the assignment to \<open>flags.writeable\<close> of line 56;
  \<^item> \<open>py_cast_array site x\<close> is \<open>py::cast<py::array>\<close>, a converting cast, at the
    conversion \<open>site\<close>;
  \<^item> \<open>py_repr\<close> is \<open>py::repr\<close> read as a string (every path calls it at most once);
  \<^item> \<open>ByteWidth\<close> is \<open>primitive_util::ByteWidth\<close>;
  \<^item> \<open>GetOrCreate\<close> is \<open>TransposePlanCache::GetOrCreate\<close> on a store state \<open>'c\<close>: it
    returns a plan or a failed status, and the store state afterwards;
  \<^item> \<open>Execute\<close> is \<open>TransposePlan::Execute(src, dst)\<close>: the destination buffer afterwards,
    from the plan, the source bytes and the destination buffer before; \<open>None\<close> when the
    plan reads or writes outside them.
\<close>

record ('p, 'c) runtime =
  py_array :: "nat \<Rightarrow> string \<Rightarrow> int list \<Rightarrow> int list \<Rightarrow> bytes \<Rightarrow> string + ndarray"
  py_set_writeable :: "nat \<Rightarrow> ndarray \<Rightarrow> bool \<Rightarrow> string + ndarray"
  py_cast_array :: "conversion \<Rightarrow> py_object \<Rightarrow> string + ndarray"
  py_repr :: "py_object \<Rightarrow> string + string"
  ByteWidth :: "PrimitiveType \<Rightarrow> nat"
  GetOrCreate :: "'c \<Rightarrow> Options \<Rightarrow> (string + 'p) \<times> 'c"
  Execute :: "'p \<Rightarrow> bytes \<Rightarrow> bytes \<Rightarrow> bytes option"

text \<open>
  The \<open>CpuCallback\<close> object: its members \<^verbatim>\<open>callable_\<close>, \<^verbatim>\<open>args_\<close>, \<^verbatim>\<open>results_\<close> and
  \<^verbatim>\<open>transpose_cache_\<close> (a name cannot end in an underscore here, so each has the prefix
  \<open>cb\<close> instead). \<open>cb_callable\<close> is the Python callable applied to the argument tuple:
  \<open>Inr\<close> the object it returns, \<open>Inl e\<close> when it raises.
\<close>

record 'c CpuCallback =
  cb_callable :: "py_object list \<Rightarrow> string + py_object"
  cb_args :: "Arg list"
  cb_results :: "Result list"
  cb_transpose_cache :: 'c

subsection \<open>CallInternal\<close>

text \<open>
  The loop of \<open>CallInternal\<close> over the result slots, from slot \<open>i\<close> on: \<open>None\<close> when
  every slot passed, \<open>Some m\<close> at the first slot that is refused.
\<close>

fun CallInternal_loop ::
  "('p, 'c) runtime \<Rightarrow> Result list \<Rightarrow> py_object list \<Rightarrow> nat \<Rightarrow> message option outcome" where
  "CallInternal_loop rt [] result_tuple i = Returned None"
| "CallInternal_loop rt (r # rs) result_tuple i =
     (let output = result_tuple ! i in
      if res_type r = TOKEN then
        (if output \<noteq> PyNone then
           (case py_repr rt output of
              Inl e \<Rightarrow> Thrown e
            | Inr s \<Rightarrow> Returned (Some (TokenOutputNotNone s)))
         else CallInternal_loop rt rs result_tuple (Suc i))
      else
        (case py_cast_array rt (Validation i) output of
           Inl e \<Rightarrow> Thrown e
         | Inr array \<Rightarrow>
             if nd_shape array \<noteq> expected_dims r then
               Returned (Some (MismatchedResultShape i (expected_dims r) (nd_shape array)))
             else CallInternal_loop rt rs result_tuple (Suc i)))"

definition CallInternal ::
  "('p, 'c) runtime \<Rightarrow> 'c CpuCallback \<Rightarrow> py_object list \<Rightarrow> (message + py_object list) outcome" where
  "CallInternal rt cb args =
     (case cb_callable cb args of
        Inl e \<Rightarrow> Returned (Inl (CpuCallbackError e))
      | Inr result_object \<Rightarrow>
          (case result_object of
             PyTuple result_tuple \<Rightarrow>
               if length result_tuple \<noteq> length (cb_results cb) then
                 Returned (Inl (ExpectedResults (length (cb_results cb)) (length result_tuple)))
               else
                 (case CallInternal_loop rt (cb_results cb) result_tuple 0 of
                    Thrown e \<Rightarrow> Thrown e
                  | Undefined \<Rightarrow> Undefined
                  | Returned (Some m) \<Rightarrow> Returned (Inl m)
                  | Returned None \<Rightarrow> Returned (Inr result_tuple))
           | _ \<Rightarrow>
               (case py_repr rt result_object of
                  Inl e \<Rightarrow> Thrown e
                | Inr s \<Rightarrow> Returned (Inl (ExpectedTupleResult s)))))"

definition Call ::
  "('p, 'c) runtime \<Rightarrow> 'c CpuCallback \<Rightarrow> py_object list \<Rightarrow> (message + py_object list) outcome" where
  "Call rt cb args = CallInternal rt cb args"

text \<open>
  \<open>Call(args, status)\<close>: the overload with a status slot. It returns the slot and
  \<open>std::optional<py::tuple>\<close>.
\<close>

definition Call_status ::
  "('p, 'c) runtime \<Rightarrow> 'c CpuCallback \<Rightarrow> py_object list \<Rightarrow> XlaCustomCallStatus
     \<Rightarrow> (XlaCustomCallStatus \<times> py_object list option) outcome" where
  "Call_status rt cb args status =
     (case CallInternal rt cb args of
        Thrown e \<Rightarrow> Thrown e
      | Undefined \<Rightarrow> Undefined
      | Returned (Inl m) \<Rightarrow> Returned (XlaCustomCallStatusSetFailure status m, None)
      | Returned (Inr result_tuple) \<Rightarrow> Returned (status, Some result_tuple))"

subsection \<open>PrepareAndCallInternal\<close>

text \<open>
  The argument loop, from argument \<open>i\<close> on: slot \<open>i\<close> of the argument tuple is \<open>None\<close> for
  a \<open>TOKEN\<close> argument, and otherwise an array built over the input buffer \<open>inputs[i]\<close>
  and made read-only. The span \<open>inputs\<close> is taken to have \<^verbatim>\<open>args_.size()\<close> entries; a read
  past the buffers the caller supplied is undefined.
\<close>

fun make_args_loop ::
  "('p, 'c) runtime \<Rightarrow> Arg list \<Rightarrow> bytes list \<Rightarrow> nat \<Rightarrow> py_object list outcome" where
  "make_args_loop rt [] inputs i = Returned []"
| "make_args_loop rt (a # as) inputs i =
     (if arg_type a = TOKEN then
        (case make_args_loop rt as inputs (Suc i) of
           Returned rest \<Rightarrow> Returned (PyNone # rest)
         | Thrown e \<Rightarrow> Thrown e
         | Undefined \<Rightarrow> Undefined)
      else if length inputs \<le> i then Undefined
      else
        (case py_array rt i (arg_dtype a) (arg_dims a) (arg_strides a) (inputs ! i) of
           Inl e \<Rightarrow> Thrown e
         | Inr array \<Rightarrow>
             (case py_set_writeable rt i array False of
                Inl e \<Rightarrow> Thrown e
              | Inr readonly \<Rightarrow>
                  (case make_args_loop rt as inputs (Suc i) of
                     Returned rest \<Rightarrow> Returned (PyArray readonly # rest)
                   | Thrown e \<Rightarrow> Thrown e
                   | Undefined \<Rightarrow> Undefined))))"

definition make_args :: "('p, 'c) runtime \<Rightarrow> Arg list \<Rightarrow> bytes list \<Rightarrow> py_object list outcome" where
  "make_args rt as inputs = make_args_loop rt as inputs 0"

text \<open>
  \<open>std::memcpy(dst, src, n)\<close>: defined when both buffers hold at least \<open>n\<close> bytes, and
  \<open>None\<close> otherwise.
\<close>

definition memcpy :: "bytes \<Rightarrow> bytes \<Rightarrow> nat \<Rightarrow> bytes option" where
  "memcpy dst src n =
     (if n \<le> length src \<and> n \<le> length dst then Some (take n src @ drop n dst) else None)"

definition transpose_options :: "('p, 'c) runtime \<Rightarrow> Result \<Rightarrow> ndarray \<Rightarrow> Options" where
  "transpose_options rt r array =
     \<lparr> elem_size_in_bytes = ByteWidth rt (res_type r),
       dims = nd_shape array,
       permutation = reversed_layout r,
       input_layout = Striding (nd_strides array) \<rparr>"

text \<open>
  The copy-out loop, from slot \<open>i\<close> on, over the output buffers and the plan store. It
  returns the status, the output buffers and the plan store as it leaves them. The span
  \<open>outputs\<close> is taken to have \<^verbatim>\<open>results_.size()\<close> entries; a slot without a buffer is
  undefined. The tuple has passed \<open>CallInternal\<close>, so it has as many elements as there
  are slots.
\<close>

fun copy_out ::
  "('p, 'c) runtime \<Rightarrow> Result list \<Rightarrow> py_object list \<Rightarrow> nat \<Rightarrow> bytes list \<Rightarrow> 'c
     \<Rightarrow> (Status \<times> bytes list \<times> 'c) outcome" where
  "copy_out rt [] result_tuple i outputs cache = Returned (OkStatus, outputs, cache)"
| "copy_out rt (r # rs) result_tuple i outputs cache =
     (case py_cast_array rt (CopyOut i) (result_tuple ! i) of
        Inl e \<Rightarrow> Thrown e
      | Inr array \<Rightarrow>
          if nd_strides array = expected_strides r then
            (if length outputs \<le> i then Undefined
             else case memcpy (outputs ! i) (nd_data array) (size_in_bytes r) of
                    None \<Rightarrow> Undefined
                  | Some written \<Rightarrow>
                      copy_out rt rs result_tuple (Suc i) (outputs[i := written]) cache)
          else
            (case GetOrCreate rt cache (transpose_options rt r array) of
               (Inl s, cache') \<Rightarrow> Returned (Error (TransposePlanFailure s), outputs, cache')
             | (Inr plan, cache') \<Rightarrow>
                 (if length outputs \<le> i then Undefined
                  else case Execute rt plan (nd_data array) (outputs ! i) of
                         None \<Rightarrow> Undefined
                       | Some written \<Rightarrow>
                           copy_out rt rs result_tuple (Suc i) (outputs[i := written]) cache')))"

definition PrepareAndCallInternal ::
  "('p, 'c) runtime \<Rightarrow> 'c CpuCallback \<Rightarrow> bytes list \<Rightarrow> bytes list
     \<Rightarrow> (Status \<times> bytes list \<times> 'c) outcome" where
  "PrepareAndCallInternal rt cb result arg_ptrs =
     (case make_args rt (cb_args cb) arg_ptrs of
        Thrown e \<Rightarrow> Thrown e
      | Undefined \<Rightarrow> Undefined
      | Returned args \<Rightarrow>
          (case CallInternal rt cb args of
             Thrown e \<Rightarrow> Thrown e
           | Undefined \<Rightarrow> Undefined
           | Returned (Inl m) \<Rightarrow> Returned (Error m, result, cb_transpose_cache cb)
           | Returned (Inr result_tuple) \<Rightarrow>
               copy_out rt (cb_results cb) result_tuple 0 result (cb_transpose_cache cb)))"

text \<open>\<open>PrepareAndCall(result, arg_ptrs)\<close>: the overload that returns the status.\<close>

definition PrepareAndCall ::
  "('p, 'c) runtime \<Rightarrow> 'c CpuCallback \<Rightarrow> bytes list \<Rightarrow> bytes list
     \<Rightarrow> (Status \<times> bytes list \<times> 'c) outcome" where
  "PrepareAndCall rt cb result arg_ptrs = PrepareAndCallInternal rt cb result arg_ptrs"

text \<open>
  \<open>PrepareAndCall(result, arg_ptrs, status)\<close>: the overload with a status slot. It
  returns the slot, the output buffers and the plan store.
\<close>

definition PrepareAndCall_status ::
  "('p, 'c) runtime \<Rightarrow> 'c CpuCallback \<Rightarrow> bytes list \<Rightarrow> bytes list \<Rightarrow> XlaCustomCallStatus
     \<Rightarrow> (XlaCustomCallStatus \<times> bytes list \<times> 'c) outcome" where
  "PrepareAndCall_status rt cb result arg_ptrs status =
     (case PrepareAndCallInternal rt cb result arg_ptrs of
        Thrown e \<Rightarrow> Thrown e
      | Undefined \<Rightarrow> Undefined
      | Returned (s, outputs, cache) \<Rightarrow>
          (case s of
             OkStatus \<Rightarrow> Returned (status, outputs, cache)
           | Error m \<Rightarrow> Returned (XlaCustomCallStatusSetFailure status m, outputs, cache)))"

subsection \<open>Predicates for the properties\<close>

text \<open>
  Slot \<open>k\<close> is accepted by the validation loop when a \<open>TOKEN\<close> slot holds \<open>None\<close>, and any
  other slot holds a value that the conversion of the validation loop turns into an array
  of the expected dimensions.
\<close>

definition slot_accepted :: "('p, 'c) runtime \<Rightarrow> nat \<Rightarrow> Result \<Rightarrow> py_object \<Rightarrow> bool" where
  "slot_accepted rt k r x =
     (if res_type r = TOKEN then x = PyNone
      else (case py_cast_array rt (Validation k) x of
              Inl e \<Rightarrow> False
            | Inr a \<Rightarrow> nd_shape a = expected_dims r))"

text \<open>
  The value \<open>v\<close> of the callable is accepted: it is the tuple \<open>tup\<close>, of as many elements
  as there are result slots, and every slot is accepted.
\<close>

definition result_accepted ::
  "('p, 'c) runtime \<Rightarrow> Result list \<Rightarrow> string + py_object \<Rightarrow> py_object list \<Rightarrow> bool" where
  "result_accepted rt rs v tup =
     (v = Inr (PyTuple tup) \<and> length tup = length rs \<and>
      (\<forall>k<length rs. slot_accepted rt k (rs ! k) (tup ! k)))"


text \<open>
  The argument tuple \<open>args\<close> has been built for the arguments \<open>as\<close>, numbered from \<open>i\<close>:
  \<open>None\<close> for a \<open>TOKEN\<close> argument; for any other, the input buffer is there, the array
  constructor and the assignment to the writeable flag have returned, and the slot holds
  the read-only array.
\<close>

definition args_built ::
  "('p, 'c) runtime \<Rightarrow> Arg list \<Rightarrow> bytes list \<Rightarrow> nat \<Rightarrow> py_object list \<Rightarrow> bool" where
  "args_built rt as inputs i args =
     (length args = length as \<and>
      (\<forall>j<length as.
         if arg_type (as ! j) = TOKEN then args ! j = PyNone
         else i + j < length inputs \<and>
              (\<exists>a b. py_array rt (i + j) (arg_dtype (as ! j)) (arg_dims (as ! j))
                         (arg_strides (as ! j)) (inputs ! (i + j)) = Inr a \<and>
                     py_set_writeable rt (i + j) a False = Inr b \<and>
                     args ! j = PyArray b)))"

text \<open>
  The key of a transposition plan, as the claim names its parts: the element size of the
  type of the slot, the dimensions of the array, the reversed layout of the slot as the
  permutation, and the strides of the array as the input striding.
\<close>

definition plan_key :: "('p, 'c) runtime \<Rightarrow> Result \<Rightarrow> ndarray \<Rightarrow> Options" where
  "plan_key rt r a =
     \<lparr> elem_size_in_bytes = ByteWidth rt (res_type r),
       dims = nd_shape a,
       permutation = reversed_layout r,
       input_layout = Striding (nd_strides a) \<rparr>"

text \<open>
  \<open>written_as rt r a store store' before after\<close>: the copy-out of the array \<open>a\<close> into the
  slot \<open>r\<close> took the output buffer from \<open>before\<close> to \<open>after\<close> and the plan store from
  \<open>store\<close> to \<open>store'\<close>: by a direct byte copy of \<open>size_in_bytes\<close> bytes, within both
  buffers and with the store untouched, when the strides of the array are the expected
  ones; and otherwise by executing, within the buffers, the plan that the store in the
  state \<open>store\<close> returned for the transposition parameters of \<open>r\<close> and \<open>a\<close>.
\<close>

definition written_as ::
  "('p, 'c) runtime \<Rightarrow> Result \<Rightarrow> ndarray \<Rightarrow> 'c \<Rightarrow> 'c \<Rightarrow> bytes \<Rightarrow> bytes \<Rightarrow> bool" where
  "written_as rt r a store store' before after =
     (if nd_strides a = expected_strides r then
        store' = store \<and>
        size_in_bytes r \<le> length (nd_data a) \<and> size_in_bytes r \<le> length before \<and>
        after = take (size_in_bytes r) (nd_data a) @ drop (size_in_bytes r) before
      else
        (\<exists>plan. GetOrCreate rt store (plan_key rt r a) = (Inr plan, store') \<and>
                Execute rt plan (nd_data a) before = Some after))"

text \<open>
  \<open>slots_written rt rs tup i k outs store outs' store'\<close>: the first \<open>k\<close> slots of \<open>rs\<close>, which
  are the slots \<open>i\<close>, ..., \<open>i + k - 1\<close> of the tuple and of the output buffers, have been
  written one after the other. Each was written from the array that the conversion of
  the copy-out loop gave for its element; the plan store went from \<open>store\<close> to \<open>store'\<close>
  through the states \<open>stores\<close>, slot \<open>j\<close> taking it from \<open>stores ! j\<close> to the next; every
  other output buffer is as it was.
\<close>

definition slots_written ::
  "('p, 'c) runtime \<Rightarrow> Result list \<Rightarrow> py_object list \<Rightarrow> nat \<Rightarrow> nat
     \<Rightarrow> bytes list \<Rightarrow> 'c \<Rightarrow> bytes list \<Rightarrow> 'c \<Rightarrow> bool" where
  "slots_written rt rs tup i k outs store outs' store' =
     (length outs' = length outs \<and> i + k \<le> length outs \<and> k \<le> length rs \<and>
      (\<exists>stores. length stores = Suc k \<and> stores ! 0 = store \<and> stores ! k = store' \<and>
         (\<forall>j<k. \<exists>a. py_cast_array rt (CopyOut (i + j)) (tup ! (i + j)) = Inr a \<and>
                   written_as rt (rs ! j) a (stores ! j) (stores ! Suc j)
                     (outs ! (i + j)) (outs' ! (i + j)))) \<and>
      (\<forall>j<length outs. j < i \<or> i + k \<le> j \<longrightarrow> outs' ! j = outs ! j))"

text \<open>
  The copy of the array \<open>a\<close> into the slot \<open>r\<close> is undefined: the slot has no output
  buffer (\<open>None\<close>), or the byte copy, or the plan the store returned, would leave the
  buffers.
\<close>

definition out_of_range ::
  "('p, 'c) runtime \<Rightarrow> Result \<Rightarrow> ndarray \<Rightarrow> 'c \<Rightarrow> bytes option \<Rightarrow> bool" where
  "out_of_range rt r a store buffer =
     (if nd_strides a = expected_strides r then
        (case buffer of
           None \<Rightarrow> True
         | Some b \<Rightarrow> length (nd_data a) < size_in_bytes r \<or> length b < size_in_bytes r)
      else
        (\<exists>plan store'. GetOrCreate rt store (plan_key rt r a) = (Inr plan, store') \<and>
           (case buffer of
              None \<Rightarrow> True
            | Some b \<Rightarrow> Execute rt plan (nd_data a) b = None)))"

subsection \<open>Example callbacks\<close>

text \<open>
  A runtime that builds every argument array, whose cast wraps every object that is not
  an array into a 0-dimensional array (as numpy does for a scalar or a string), whose plan
  store always returns a plan (the options themselves) and records the key, and whose
  plans reverse the source bytes.
\<close>

definition object_as_array :: ndarray where
  "object_as_array =
     \<lparr> nd_dtype = ''object'', nd_shape = [], nd_strides = [], nd_data = [7], nd_writeable = True \<rparr>"

definition converting_cast :: "conversion \<Rightarrow> py_object \<Rightarrow> string + ndarray" where
  "converting_cast site x = (case x of PyArray a \<Rightarrow> Inr a | _ \<Rightarrow> Inr object_as_array)"

definition example_runtime :: "(Options, Options list) runtime" where
  "example_runtime =
     \<lparr> py_array = (\<lambda>i dtype dims strides data.
          Inr \<lparr> nd_dtype = dtype, nd_shape = dims, nd_strides = strides, nd_data = data,
                nd_writeable = True \<rparr>),
       py_set_writeable = (\<lambda>i a b. Inr (a \<lparr> nd_writeable := b \<rparr>)),
       py_cast_array = converting_cast,
       py_repr = (\<lambda>x. Inr ''<object>''),
       ByteWidth = (\<lambda>t. 1),
       GetOrCreate = (\<lambda>cache options. (Inr options, options # cache)),
       Execute = (\<lambda>plan src dst. Some (rev src)) \<rparr>"

text \<open>The same runtime with a plan store that refuses every request.\<close>

definition failing_store_runtime :: "(Options, Options list) runtime" where
  "failing_store_runtime =
     example_runtime \<lparr> GetOrCreate := (\<lambda>cache options. (Inl ''invalid options'', cache)) \<rparr>"

text \<open>The same runtime with a cast that throws on everything but an array.\<close>

definition throwing_cast_runtime :: "(Options, Options list) runtime" where
  "throwing_cast_runtime =
     example_runtime \<lparr> py_cast_array :=
       (\<lambda>site x. case x of PyArray a \<Rightarrow> Inr a | _ \<Rightarrow> Inl ''cannot convert to an array'') \<rparr>"

definition contiguous_pair :: ndarray where
  "contiguous_pair =
     \<lparr> nd_dtype = ''int8'', nd_shape = [2], nd_strides = [1], nd_data = [1, 2], nd_writeable = True \<rparr>"

definition strided_pair :: ndarray where
  "strided_pair =
     \<lparr> nd_dtype = ''int8'', nd_shape = [2], nd_strides = [2], nd_data = [3, 4], nd_writeable = True \<rparr>"

text \<open>
  A runtime in which the two conversions of an element disagree: the validation loop
  gets the bytes \<open>[1, 2]\<close>, the copy-out loop the bytes \<open>[9, 9]\<close>.
\<close>

definition other_pair :: ndarray where
  "other_pair =
     \<lparr> nd_dtype = ''int8'', nd_shape = [2], nd_strides = [1], nd_data = [9, 9], nd_writeable = True \<rparr>"

definition reconverting_runtime :: "(Options, Options list) runtime" where
  "reconverting_runtime =
     example_runtime \<lparr> py_cast_array :=
       (\<lambda>site x. case site of Validation i \<Rightarrow> Inr contiguous_pair | CopyOut i \<Rightarrow> Inr other_pair) \<rparr>"

definition pair_result :: Result where
  "pair_result =
     \<lparr> res_type = S8, expected_dims = [2], expected_strides = [1], reversed_layout = [0],
       size_in_bytes = 2 \<rparr>"

definition scalar_result :: Result where
  "scalar_result =
     \<lparr> res_type = S8, expected_dims = [], expected_strides = [], reversed_layout = [],
       size_in_bytes = 1 \<rparr>"

definition token_result :: Result where
  "token_result =
     \<lparr> res_type = TOKEN, expected_dims = [], expected_strides = [], reversed_layout = [],
       size_in_bytes = 1 \<rparr>"

definition callback_returning ::
  "Result list \<Rightarrow> string + py_object \<Rightarrow> Options list CpuCallback" where
  "callback_returning rs v =
     \<lparr> cb_callable = (\<lambda>args. v), cb_args = [], cb_results = rs, cb_transpose_cache = [] \<rparr>"

definition long_triple :: ndarray where
  "long_triple =
     \<lparr> nd_dtype = ''int8'', nd_shape = [3], nd_strides = [1], nd_data = [1, 2, 3], nd_writeable = True \<rparr>"

section \<open>Command buffer scheduling: the run collector\<close>

text \<open>
  Modelled from the spec: the instruction node of the IR, which the sources only name
  (\<^verbatim>\<open>HloInstruction\<close> in command_buffer_scheduling.h). A node has an identity, a kind
  tag, its operands, and, for a call node, the computation it calls. The kind tags are a
  type parameter: the configuration is a set of them.
\<close>

record 'k HloInstruction =
  inst_id :: nat
  opcode :: 'k
  operands :: "nat list"
  called_computation :: "nat option"

text \<open>
  Modelled from the spec: the test the collector applies to a node. Its code
  (command_buffer_scheduling.cc) is not among the sources. A node continues a run when
  its kind is in the configuration; a call into a computation of the processed set is a
  boundary.
\<close>

definition is_command :: "'k set \<Rightarrow> nat set \<Rightarrow> 'k HloInstruction \<Rightarrow> bool" where
  "is_command config processed_command_buffers inst =
     (opcode inst \<in> config \<and>
      (case called_computation inst of
         None \<Rightarrow> True
       | Some c \<Rightarrow> c \<notin> processed_command_buffers))"

text \<open>
  Modelled from the spec: closing the current run. It is emitted when its length reaches
  the threshold, and dropped otherwise; an empty run is never emitted (with no eligible
  node the collector finds no run, whatever the threshold). The threshold is the
  \<^verbatim>\<open>int32_t min_num_commands\<close> of the header.
\<close>

definition close_run :: "int \<Rightarrow> 'a list \<Rightarrow> 'a list list" where
  "close_run min_num_commands current =
     (if current \<noteq> [] \<and> min_num_commands \<le> int (length current) then [current] else [])"

text \<open>
  Modelled from the spec: the scan of \<^verbatim>\<open>CollectCommandBufferSequences\<close>, whose body is not
  among the sources (the header declares it). The schedule is read left to right; an
  eligible node joins the current run; any other node closes it, and so does the end of
  the schedule.
\<close>

fun collect_runs :: "('a \<Rightarrow> bool) \<Rightarrow> int \<Rightarrow> 'a list \<Rightarrow> 'a list \<Rightarrow> 'a list list" where
  "collect_runs eligible min_num_commands [] current = close_run min_num_commands current"
| "collect_runs eligible min_num_commands (inst # rest) current =
     (if eligible inst then collect_runs eligible min_num_commands rest (current @ [inst])
      else close_run min_num_commands current @ collect_runs eligible min_num_commands rest [])"

definition CollectCommandBufferSequences ::
  "'k HloInstruction list \<Rightarrow> 'k set \<Rightarrow> nat set \<Rightarrow> int \<Rightarrow> 'k HloInstruction list list" where
  "CollectCommandBufferSequences inst_sequence config processed_command_buffers min_num_commands =
     collect_runs (is_command config processed_command_buffers) min_num_commands inst_sequence []"

text \<open>
  The default of the header: \<^verbatim>\<open>int32_t min_num_commands = 1\<close>.
\<close>

definition CollectCommandBufferSequences_default ::
  "'k HloInstruction list \<Rightarrow> 'k set \<Rightarrow> nat set \<Rightarrow> 'k HloInstruction list list" where
  "CollectCommandBufferSequences_default inst_sequence config processed_command_buffers =
     CollectCommandBufferSequences inst_sequence config processed_command_buffers 1"

text \<open>
  \<open>runs_in_order rs xs\<close>: the runs \<open>rs\<close> lie in \<open>xs\<close> one after the other. The first run is
  the block of \<open>xs\<close> that starts at some position \<open>k\<close>, and the runs that follow lie in
  what \<open>xs\<close> holds after that block. So every run is a contiguous block of \<open>xs\<close>, the
  blocks do not overlap, and they come in the order of the list.
\<close>

fun runs_in_order :: "'a list list \<Rightarrow> 'a list \<Rightarrow> bool" where
  "runs_in_order [] xs = True"
| "runs_in_order (r # rs) xs =
     (\<exists>k \<in> set [0 ..< Suc (length xs)].
        take (length r) (drop k xs) = r \<and> runs_in_order rs (drop (k + length r) xs))"

text \<open>An example schedule: two parameters, two fusions, a custom call, one more fusion.\<close>

definition instr :: "nat \<Rightarrow> string \<Rightarrow> nat list \<Rightarrow> string HloInstruction" where
  "instr i k ops = \<lparr> inst_id = i, opcode = k, operands = ops, called_computation = None \<rparr>"

definition example_schedule :: "string HloInstruction list" where
  "example_schedule =
     [instr 0 ''parameter'' [], instr 1 ''parameter'' [],
      instr 2 ''fusion'' [0, 1], instr 3 ''fusion'' [2, 0],
      instr 4 ''custom-call'' [3], instr 5 ''fusion'' [4]]"

section \<open>Properties of the callback boundary\<close>

subsection \<open>Slots written one after the other\<close>

lemma transpose_options_is_plan_key [simp]: "transpose_options rt r a = plan_key rt r a"
  by (simp add: transpose_options_def plan_key_def)

lemma slots_written_0: "slots_written rt rs tup i 0 outs c outs' c' \<longleftrightarrow> outs' = outs \<and> c' = c \<and> i \<le> length outs"
proof
  assume h: "slots_written rt rs tup i 0 outs c outs' c'"
  then have "length outs' = length outs" "\<forall>j<length outs. outs' ! j = outs ! j" "c' = c" "i \<le> length outs"
    by (auto simp: slots_written_def)
  then show "outs' = outs \<and> c' = c \<and> i \<le> length outs" by (simp add: list_eq_iff_nth_eq)
next
  assume "outs' = outs \<and> c' = c \<and> i \<le> length outs"
  then show "slots_written rt rs tup i 0 outs c outs' c'"
    unfolding slots_written_def by (auto intro!: exI[of _ "[c]"])
qed

lemma slots_written_Suc:
  "slots_written rt (r # rs) tup i (Suc k) outs c outs' c' \<longleftrightarrow>
   (\<exists>a v c1. py_cast_array rt (CopyOut i) (tup ! i) = Inr a \<and> i < length outs \<and>
      written_as rt r a c c1 (outs ! i) v \<and>
      slots_written rt rs tup (Suc i) k (outs[i := v]) c1 outs' c')"
  (is "?L \<longleftrightarrow> ?R")
proof
  assume ?L
  then obtain stores where
    len: "length outs' = length outs" "i + Suc k \<le> length outs" "Suc k \<le> length (r # rs)" and
    st: "length stores = Suc (Suc k)" "stores ! 0 = c" "stores ! Suc k = c'" and
    w: "\<forall>j<Suc k. \<exists>a. py_cast_array rt (CopyOut (i + j)) (tup ! (i + j)) = Inr a \<and>
          written_as rt ((r # rs) ! j) a (stores ! j) (stores ! Suc j) (outs ! (i + j)) (outs' ! (i + j))" and
    u: "\<forall>j<length outs. j < i \<or> i + Suc k \<le> j \<longrightarrow> outs' ! j = outs ! j"
    unfolding slots_written_def by blast
  from w[rule_format, of 0] obtain a where a: "py_cast_array rt (CopyOut i) (tup ! i) = Inr a"
    "written_as rt r a c (stores ! 1) (outs ! i) (outs' ! i)" using st(2) by auto
  let ?v = "outs' ! i" and ?c1 = "stores ! 1"
  have rest: "slots_written rt rs tup (Suc i) k (outs[i := ?v]) ?c1 outs' c'"
    unfolding slots_written_def
  proof (intro conjI)
    show "length outs' = length (outs[i := ?v])" using len by simp
    show "Suc i + k \<le> length (outs[i := ?v])" using len by simp
    show "k \<le> length rs" using len by simp
    show "\<exists>ss. length ss = Suc k \<and> ss ! 0 = ?c1 \<and> ss ! k = c' \<and>
         (\<forall>j<k. \<exists>a. py_cast_array rt (CopyOut (Suc i + j)) (tup ! (Suc i + j)) = Inr a \<and>
                   written_as rt (rs ! j) a (ss ! j) (ss ! Suc j)
                     (outs[i := ?v] ! (Suc i + j)) (outs' ! (Suc i + j)))"
    proof (intro exI[of _ "tl stores"] conjI allI impI)
      show "length (tl stores) = Suc k" using st by simp
      show "tl stores ! 0 = ?c1" using st by (simp add: nth_tl)
      show "tl stores ! k = c'" using st by (simp add: nth_tl)
      fix j assume j: "j < k"
      from w[rule_format, of "Suc j"] j obtain b where
        "py_cast_array rt (CopyOut (i + Suc j)) (tup ! (i + Suc j)) = Inr b"
        "written_as rt (rs ! j) b (stores ! Suc j) (stores ! Suc (Suc j)) (outs ! (i + Suc j)) (outs' ! (i + Suc j))"
        by auto
      with j st show "\<exists>a. py_cast_array rt (CopyOut (Suc i + j)) (tup ! (Suc i + j)) = Inr a \<and>
                   written_as rt (rs ! j) a (tl stores ! j) (tl stores ! Suc j)
                     (outs[i := ?v] ! (Suc i + j)) (outs' ! (Suc i + j))"
        by (auto simp: nth_tl)
    qed
    show "\<forall>j<length (outs[i := ?v]). j < Suc i \<or> Suc i + k \<le> j \<longrightarrow> outs' ! j = outs[i := ?v] ! j"
    proof (intro allI impI)
      fix j assume j: "j < length (outs[i := ?v])" "j < Suc i \<or> Suc i + k \<le> j"
      show "outs' ! j = outs[i := ?v] ! j"
      proof (cases "j = i")
        case True
        with j show ?thesis by simp
      next
        case False
        with j u show ?thesis by auto
      qed
    qed
  qed
  from a rest len show ?R by auto
next
  assume ?R
  then obtain a v c1 where a: "py_cast_array rt (CopyOut i) (tup ! i) = Inr a" "i < length outs"
    "written_as rt r a c c1 (outs ! i) v" and
    rest: "slots_written rt rs tup (Suc i) k (outs[i := v]) c1 outs' c'" by blast
  from rest obtain ss where
    len: "length outs' = length outs" "Suc i + k \<le> length outs" "k \<le> length rs" and
    st: "length ss = Suc k" "ss ! 0 = c1" "ss ! k = c'" and
    w: "\<forall>j<k. \<exists>a. py_cast_array rt (CopyOut (Suc i + j)) (tup ! (Suc i + j)) = Inr a \<and>
          written_as rt (rs ! j) a (ss ! j) (ss ! Suc j) (outs[i := v] ! (Suc i + j)) (outs' ! (Suc i + j))" and
    u: "\<forall>j<length outs. j < Suc i \<or> Suc i + k \<le> j \<longrightarrow> outs' ! j = outs[i := v] ! j"
    unfolding slots_written_def by auto
  from u a(2) have oi: "outs' ! i = v" by auto
  show ?L unfolding slots_written_def
  proof (intro conjI)
    show "length outs' = length outs" by fact
    show "i + Suc k \<le> length outs" using len by simp
    show "Suc k \<le> length (r # rs)" using len by simp
    show "\<exists>stores. length stores = Suc (Suc k) \<and> stores ! 0 = c \<and> stores ! Suc k = c' \<and>
       (\<forall>j<Suc k. \<exists>a. py_cast_array rt (CopyOut (i + j)) (tup ! (i + j)) = Inr a \<and>
           written_as rt ((r # rs) ! j) a (stores ! j) (stores ! Suc j) (outs ! (i + j)) (outs' ! (i + j)))"
    proof (intro exI[of _ "c # ss"] conjI allI impI)
      show "length (c # ss) = Suc (Suc k)" using st by simp
      show "(c # ss) ! 0 = c" by simp
      show "(c # ss) ! Suc k = c'" using st by simp
      fix j assume j: "j < Suc k"
      show "\<exists>a. py_cast_array rt (CopyOut (i + j)) (tup ! (i + j)) = Inr a \<and>
           written_as rt ((r # rs) ! j) a ((c # ss) ! j) ((c # ss) ! Suc j) (outs ! (i + j)) (outs' ! (i + j))"
      proof (cases j)
        case 0
        with a oi st show ?thesis by auto
      next
        case (Suc j')
        with j w[rule_format, of j'] show ?thesis by auto
      qed
    qed
    show "\<forall>j<length outs. j < i \<or> i + Suc k \<le> j \<longrightarrow> outs' ! j = outs ! j"
      using u by auto
  qed
qed

subsection \<open>The copy-out loop\<close>

lemma copy_out_ok:
  "copy_out rt rs tup i outs c = Returned (OkStatus, outs', c') \<Longrightarrow> i \<le> length outs \<Longrightarrow>
   slots_written rt rs tup i (length rs) outs c outs' c'"
proof (induction rs arbitrary: i outs c)
  case Nil
  then show ?case by (simp add: slots_written_0)
next
  case (Cons r rs)
  from Cons.prems(1) obtain a where a: "py_cast_array rt (CopyOut i) (tup ! i) = Inr a"
    by (auto split: sum.splits)
  have "\<exists>v c1. i < length outs \<and> written_as rt r a c c1 (outs ! i) v \<and>
           copy_out rt rs tup (Suc i) (outs[i := v]) c1 = Returned (OkStatus, outs', c')"
    using Cons.prems(1) a
    by (auto simp: written_as_def memcpy_def split: if_splits option.splits prod.splits sum.splits)
  then obtain v c1 where s: "i < length outs" "written_as rt r a c c1 (outs ! i) v"
    "copy_out rt rs tup (Suc i) (outs[i := v]) c1 = Returned (OkStatus, outs', c')" by blast
  from Cons.IH[OF s(3)] s(1)
  have "slots_written rt rs tup (Suc i) (length rs) (outs[i := v]) c1 outs' c'" by simp
  with a s(1,2) show ?case by (auto simp: slots_written_Suc)
qed

lemma copy_out_step:
  assumes "py_cast_array rt (CopyOut i) (tup ! i) = Inr a" "i < length outs"
    "written_as rt r a c c1 (outs ! i) v"
  shows "copy_out rt (r # rs) tup i outs c = copy_out rt rs tup (Suc i) (outs[i := v]) c1"
  using assms by (auto simp: written_as_def memcpy_def split: if_splits)


text \<open>
  A loop that does not end with an OK status has stopped at a slot that was not written;
  the slots before it were.
\<close>

lemma copy_out_stops:
  "copy_out rt rs tup i outs c = X \<Longrightarrow> i \<le> length outs \<Longrightarrow>
   (\<forall>outs' c'. X \<noteq> Returned (OkStatus, outs', c')) \<Longrightarrow>
   \<exists>k<length rs. \<exists>outs_k ck.
     slots_written rt rs tup i k outs c outs_k ck \<and>
     copy_out rt (drop k rs) tup (i + k) outs_k ck = X \<and>
     (\<forall>a v c1. py_cast_array rt (CopyOut (i + k)) (tup ! (i + k)) = Inr a \<longrightarrow>
        i + k < length outs_k \<longrightarrow> \<not> written_as rt (rs ! k) a ck c1 (outs_k ! (i + k)) v)"
proof (induction rs arbitrary: i outs c)
  case Nil
  then show ?case by auto
next
  case (Cons r rs)
  show ?case
  proof (cases "\<exists>a v c1. py_cast_array rt (CopyOut i) (tup ! i) = Inr a \<and> i < length outs \<and>
                  written_as rt r a c c1 (outs ! i) v")
    case False
    have w0: "slots_written rt (r # rs) tup i 0 outs c outs c"
      using Cons.prems(2) by (simp add: slots_written_0)
    have x0: "copy_out rt (drop 0 (r # rs)) tup (i + 0) outs c = X"
      using Cons.prems(1) by (simp del: copy_out.simps)
    have n0: "\<forall>a v c1. py_cast_array rt (CopyOut (i + 0)) (tup ! (i + 0)) = Inr a \<longrightarrow>
        i + 0 < length outs \<longrightarrow> \<not> written_as rt ((r # rs) ! 0) a c c1 (outs ! (i + 0)) v"
      using False by simp
    have "0 < length (r # rs)" by simp
    with w0 x0 n0 show ?thesis by blast
  next
    case True
    then obtain a v c1 where s: "py_cast_array rt (CopyOut i) (tup ! i) = Inr a"
      "i < length outs" "written_as rt r a c c1 (outs ! i) v" by blast
    from copy_out_step[OF s] Cons.prems(1)
    have rest: "copy_out rt rs tup (Suc i) (outs[i := v]) c1 = X" by simp
    from Cons.IH[OF rest _ Cons.prems(3)] s(2) obtain k outs_k ck where k: "k < length rs"
      "slots_written rt rs tup (Suc i) k (outs[i := v]) c1 outs_k ck"
      "copy_out rt (drop k rs) tup (Suc i + k) outs_k ck = X"
      "\<forall>a v c1. py_cast_array rt (CopyOut (Suc i + k)) (tup ! (Suc i + k)) = Inr a \<longrightarrow>
        Suc i + k < length outs_k \<longrightarrow> \<not> written_as rt (rs ! k) a ck c1 (outs_k ! (Suc i + k)) v"
      by auto
    from s k(2) have "slots_written rt (r # rs) tup i (Suc k) outs c outs_k ck"
      by (auto simp: slots_written_Suc)
    moreover have "copy_out rt (drop (Suc k) (r # rs)) tup (i + Suc k) outs_k ck = X"
      using k(3) by (simp del: copy_out.simps)
    moreover have "\<forall>a v c1. py_cast_array rt (CopyOut (i + Suc k)) (tup ! (i + Suc k)) = Inr a \<longrightarrow>
        i + Suc k < length outs_k \<longrightarrow>
        \<not> written_as rt ((r # rs) ! Suc k) a ck c1 (outs_k ! (i + Suc k)) v"
      using k(4) by simp
    moreover have "Suc k < length (r # rs)" using k(1) by simp
    ultimately show ?thesis by blast
  qed
qed

lemma copy_out_failed:
  assumes "copy_out rt rs tup i outs c = Returned (Error m, outs', c')" "i \<le> length outs"
  shows "\<exists>k<length rs. \<exists>a s ck.
           slots_written rt rs tup i k outs c outs' ck \<and>
           py_cast_array rt (CopyOut (i + k)) (tup ! (i + k)) = Inr a \<and>
           nd_strides a \<noteq> expected_strides (rs ! k) \<and>
           GetOrCreate rt ck (plan_key rt (rs ! k) a) = (Inl s, c') \<and>
           m = TransposePlanFailure s"
proof -
  from copy_out_stops[OF assms] obtain k outs_k ck where k: "k < length rs"
    "slots_written rt rs tup i k outs c outs_k ck"
    "copy_out rt (drop k rs) tup (i + k) outs_k ck = Returned (Error m, outs', c')"
    "\<forall>a v c1. py_cast_array rt (CopyOut (i + k)) (tup ! (i + k)) = Inr a \<longrightarrow>
        i + k < length outs_k \<longrightarrow> \<not> written_as rt (rs ! k) a ck c1 (outs_k ! (i + k)) v"
    by auto
  from k(1) have d: "drop k rs = rs ! k # drop (Suc k) rs" by (simp add: Cons_nth_drop_Suc)
  from k(3) obtain a where a: "py_cast_array rt (CopyOut (i + k)) (tup ! (i + k)) = Inr a"
    unfolding d by (auto split: sum.splits)
  from k(3,4) a have "nd_strides a \<noteq> expected_strides (rs ! k) \<and>
      (\<exists>s. GetOrCreate rt ck (plan_key rt (rs ! k) a) = (Inl s, c') \<and>
           m = TransposePlanFailure s \<and> outs' = outs_k)"
    unfolding d
    by (auto simp: written_as_def memcpy_def not_le split: if_splits option.splits prod.splits sum.splits)
  with k(1,2) a show ?thesis by blast
qed

lemma copy_out_thrown:
  assumes "copy_out rt rs tup i outs c = Thrown e" "i \<le> length outs"
  shows "\<exists>k<length rs. \<exists>outs_k ck.
           slots_written rt rs tup i k outs c outs_k ck \<and>
           py_cast_array rt (CopyOut (i + k)) (tup ! (i + k)) = Inl e"
proof -
  from copy_out_stops[OF assms] obtain k outs_k ck where k: "k < length rs"
    "slots_written rt rs tup i k outs c outs_k ck"
    "copy_out rt (drop k rs) tup (i + k) outs_k ck = Thrown e"
    "\<forall>a v c1. py_cast_array rt (CopyOut (i + k)) (tup ! (i + k)) = Inr a \<longrightarrow>
        i + k < length outs_k \<longrightarrow> \<not> written_as rt (rs ! k) a ck c1 (outs_k ! (i + k)) v"
    by auto
  from k(1) have d: "drop k rs = rs ! k # drop (Suc k) rs" by (simp add: Cons_nth_drop_Suc)
  from k(3,4) have "py_cast_array rt (CopyOut (i + k)) (tup ! (i + k)) = Inl e"
    unfolding d
    by (auto simp: written_as_def memcpy_def not_le split: if_splits option.splits prod.splits sum.splits)
  with k(1,2) show ?thesis by blast
qed

lemma copy_out_undefined:
  assumes "copy_out rt rs tup i outs c = Undefined" "i \<le> length outs"
  shows "\<exists>k<length rs. \<exists>outs_k ck a.
           slots_written rt rs tup i k outs c outs_k ck \<and>
           py_cast_array rt (CopyOut (i + k)) (tup ! (i + k)) = Inr a \<and>
           out_of_range rt (rs ! k) a ck
             (if i + k < length outs_k then Some (outs_k ! (i + k)) else None)"
proof -
  from copy_out_stops[OF assms] obtain k outs_k ck where k: "k < length rs"
    "slots_written rt rs tup i k outs c outs_k ck"
    "copy_out rt (drop k rs) tup (i + k) outs_k ck = Undefined"
    "\<forall>a v c1. py_cast_array rt (CopyOut (i + k)) (tup ! (i + k)) = Inr a \<longrightarrow>
        i + k < length outs_k \<longrightarrow> \<not> written_as rt (rs ! k) a ck c1 (outs_k ! (i + k)) v"
    by auto
  from k(1) have d: "drop k rs = rs ! k # drop (Suc k) rs" by (simp add: Cons_nth_drop_Suc)
  from k(3) obtain a where a: "py_cast_array rt (CopyOut (i + k)) (tup ! (i + k)) = Inr a"
    unfolding d by (auto split: sum.splits)
  from k(3,4) a have "out_of_range rt (rs ! k) a ck
             (if i + k < length outs_k then Some (outs_k ! (i + k)) else None)"
    unfolding d
    by (auto simp: written_as_def out_of_range_def memcpy_def not_le
             split: if_splits option.splits prod.splits sum.splits)
  with k(1,2) a show ?thesis by blast
qed


subsection \<open>The argument loop and the validation loop\<close>

lemma make_args_loop_built:
  "args_built rt as inputs i args \<Longrightarrow> make_args_loop rt as inputs i = Returned args"
proof (induction as arbitrary: i args)
  case Nil
  then show ?case by (simp add: args_built_def)
next
  case (Cons a as)
  from Cons.prems obtain x rest where args: "args = x # rest" "length rest = length as"
    by (cases args) (auto simp: args_built_def)
  have rest: "args_built rt as inputs (Suc i) rest"
    unfolding args_built_def
  proof (intro conjI allI impI)
    show "length rest = length as" by fact
    fix j assume "j < length as"
    with Cons.prems args have "if arg_type ((a # as) ! Suc j) = TOKEN then args ! Suc j = PyNone
         else i + Suc j < length inputs \<and>
              (\<exists>u b. py_array rt (i + Suc j) (arg_dtype ((a # as) ! Suc j)) (arg_dims ((a # as) ! Suc j))
                         (arg_strides ((a # as) ! Suc j)) (inputs ! (i + Suc j)) = Inr u \<and>
                     py_set_writeable rt (i + Suc j) u False = Inr b \<and>
                     args ! Suc j = PyArray b)"
      unfolding args_built_def by (metis Suc_less_eq length_Cons)
    with args show "if arg_type (as ! j) = TOKEN then rest ! j = PyNone
         else Suc i + j < length inputs \<and>
              (\<exists>u b. py_array rt (Suc i + j) (arg_dtype (as ! j)) (arg_dims (as ! j))
                         (arg_strides (as ! j)) (inputs ! (Suc i + j)) = Inr u \<and>
                     py_set_writeable rt (Suc i + j) u False = Inr b \<and>
                     rest ! j = PyArray b)"
      by (auto split: if_splits)
  qed
  from Cons.prems args have first: "if arg_type a = TOKEN then x = PyNone
         else i < length inputs \<and>
              (\<exists>u b. py_array rt i (arg_dtype a) (arg_dims a) (arg_strides a) (inputs ! i) = Inr u \<and>
                     py_set_writeable rt i u False = Inr b \<and> x = PyArray b)"
    unfolding args_built_def by (auto dest: spec[of _ 0])
  from Cons.IH[OF rest] first args show ?case by (auto split: if_splits)
qed

lemma loop_accepts:
  "(\<forall>k<length rs. slot_accepted rt (i + k) (rs ! k) (tup ! (i + k))) \<Longrightarrow>
   CallInternal_loop rt rs tup i = Returned None"
proof (induction rs arbitrary: i)
  case Nil
  show ?case by simp
next
  case (Cons r rs)
  from Cons.prems have first: "slot_accepted rt i r (tup ! i)" by (auto dest: spec[of _ 0])
  from Cons.prems have "\<forall>k<length rs. slot_accepted rt (Suc i + k) (rs ! k) (tup ! (Suc i + k))"
    by (auto dest: spec[of _ "Suc k" for k])
  from Cons.IH[OF this] first show ?case
    by (auto simp: slot_accepted_def Let_def split: sum.splits if_splits)
qed



lemma CallInternal_accepted:
  "result_accepted rt (cb_results cb) (cb_callable cb args) tup \<Longrightarrow>
   CallInternal rt cb args = Returned (Inr tup)"
  using loop_accepts[of "cb_results cb" rt 0 tup]
  by (simp add: result_accepted_def CallInternal_def)

subsection \<open>The examples, evaluated\<close>

lemmas ex_defs = object_as_array_def converting_cast_def example_runtime_def failing_store_runtime_def
  throwing_cast_runtime_def reconverting_runtime_def contiguous_pair_def strided_pair_def
  other_pair_def pair_result_def scalar_result_def
  token_result_def callback_returning_def long_triple_def
  PrepareAndCall_status_def PrepareAndCallInternal_def CallInternal_def Call_status_def
  make_args_def memcpy_def transpose_options_def plan_key_def XlaCustomCallStatusSetFailure_def

lemma no_args_built: "args_built rt (cb_args (callback_returning rs v)) inputs 0 []"
  by (simp add: args_built_def callback_returning_def)

subsection \<open>The copy-out step (claim C8)\<close>

text \<open>
  Claim C8, as amended. Let the argument tuple be built and the value of the callable be
  accepted by the validation loop. The copy-out step then takes the result slots in
  order. For each it converts the tuple element to an array once more (this conversion,
  not the one that was validated, gives the array that is copied) and writes the output
  buffer of the slot from that array: by a direct byte copy of \<open>size_in_bytes\<close> bytes when
  the strides of the array are the expected strides, and otherwise by executing the plan
  that the plan store, in the state the slots before left it in, returns for the key made
  of the element size, the dimensions of the array, the reversed layout of the slot and
  the strides of the array. \<open>PrepareAndCallInternal\<close> ends in one of four ways.
  \<^item> With an OK status: every slot was written so.
  \<^item> With a failed status: the slots before some slot \<open>k\<close> were written; for slot \<open>k\<close>,
    whose strides differ, the plan store returned a failure instead of a plan; the status
    is that failure, and slot \<open>k\<close> and the slots after it are as the caller supplied them.
  \<^item> With an exception: the slots before some slot \<open>k\<close> were written, and the conversion
    of element \<open>k\<close> threw it.
  \<^item> Undefined: the slots before some slot \<open>k\<close> were written, and the copy into slot \<open>k\<close>
    would leave the buffers.
\<close>

theorem copy_out_direct_copy_or_transposition:
  assumes built: "args_built rt (cb_args cb) arg_ptrs 0 args"
      and accepted: "result_accepted rt (cb_results cb) (cb_callable cb args) tup"
  shows "case PrepareAndCallInternal rt cb result arg_ptrs of
           Returned (OkStatus, outs', store') \<Rightarrow>
             slots_written rt (cb_results cb) tup 0 (length (cb_results cb))
               result (cb_transpose_cache cb) outs' store'
         | Returned (Error m, outs', store') \<Rightarrow>
             (\<exists>k<length (cb_results cb). \<exists>a s store_k.
                 slots_written rt (cb_results cb) tup 0 k result (cb_transpose_cache cb) outs' store_k \<and>
                 py_cast_array rt (CopyOut k) (tup ! k) = Inr a \<and>
                 nd_strides a \<noteq> expected_strides (cb_results cb ! k) \<and>
                 GetOrCreate rt store_k (plan_key rt (cb_results cb ! k) a) = (Inl s, store') \<and>
                 m = TransposePlanFailure s)
         | Thrown e \<Rightarrow>
             (\<exists>k<length (cb_results cb). \<exists>outs_k store_k.
                 slots_written rt (cb_results cb) tup 0 k result (cb_transpose_cache cb) outs_k store_k \<and>
                 py_cast_array rt (CopyOut k) (tup ! k) = Inl e)
         | Undefined \<Rightarrow>
             (\<exists>k<length (cb_results cb). \<exists>outs_k store_k a.
                 slots_written rt (cb_results cb) tup 0 k result (cb_transpose_cache cb) outs_k store_k \<and>
                 py_cast_array rt (CopyOut k) (tup ! k) = Inr a \<and>
                 out_of_range rt (cb_results cb ! k) a store_k
                   (if k < length outs_k then Some (outs_k ! k) else None))"
proof -
  let ?rs = "cb_results cb" and ?c = "cb_transpose_cache cb"
  have args: "make_args rt (cb_args cb) arg_ptrs = Returned args"
    using make_args_loop_built[OF built] by (simp add: make_args_def)
  have run: "PrepareAndCallInternal rt cb result arg_ptrs = copy_out rt ?rs tup 0 result ?c"
    using args CallInternal_accepted[OF accepted] by (simp add: PrepareAndCallInternal_def)
  show ?thesis
  proof (cases "copy_out rt ?rs tup 0 result ?c")
    case (Thrown e)
    from copy_out_thrown[OF Thrown] show ?thesis unfolding run Thrown by simp
  next
    case Undefined
    from copy_out_undefined[OF Undefined le0, unfolded add_0]
    show ?thesis unfolding run Undefined outcome.case by blast
  next
    case (Returned v)
    obtain st outs' store' where v: "v = (st, outs', store')" by (cases v)
    show ?thesis
    proof (cases st)
      case OkStatus
      from copy_out_ok[of rt ?rs tup 0 result ?c outs' store'] Returned v OkStatus
      show ?thesis unfolding run Returned v OkStatus by simp
    next
      case (Error m)
      from copy_out_failed[of rt ?rs tup 0 result ?c m outs' store'] Returned v Error
      show ?thesis unfolding run Returned v Error by simp
    qed
  qed
qed

text \<open>
  The theorem at work: two slots of two bytes; the first array has strides that differ
  from the expected ones and goes through a plan, the second is copied.
\<close>

theorem copy_out_direct_copy_or_transposition_witness:
  "PrepareAndCallInternal example_runtime
     (callback_returning [pair_result, pair_result]
        (Inr (PyTuple [PyArray strided_pair, PyArray contiguous_pair])))
     [[0, 0], [0, 0]] []
     = Returned (OkStatus, [[4, 3], [1, 2]],
         [plan_key example_runtime pair_result strided_pair]) \<and>
   slots_written example_runtime [pair_result, pair_result]
     [PyArray strided_pair, PyArray contiguous_pair] 0 2
     [[0, 0], [0, 0]] [] [[4, 3], [1, 2]]
     [plan_key example_runtime pair_result strided_pair]"
proof -
  let ?v = "Inr (PyTuple [PyArray strided_pair, PyArray contiguous_pair])"
  let ?cb = "callback_returning [pair_result, pair_result] ?v"
  have acc: "result_accepted example_runtime (cb_results ?cb) (cb_callable ?cb [])
               [PyArray strided_pair, PyArray contiguous_pair]"
    by (simp add: result_accepted_def slot_accepted_def ex_defs All_less_Suc2)
  have run: "PrepareAndCallInternal example_runtime ?cb [[0, 0], [0, 0]] []
     = Returned (OkStatus, [[4, 3], [1, 2]],
         [plan_key example_runtime pair_result strided_pair])"
    by (simp add: ex_defs)
  from copy_out_direct_copy_or_transposition
    [where rt = example_runtime and cb = "?cb" and arg_ptrs = "[]" and args = "[]"
       and result = "[[0, 0], [0, 0]]", OF no_args_built acc]
  have "slots_written example_runtime [pair_result, pair_result]
     [PyArray strided_pair, PyArray contiguous_pair] 0 2
     [[0, 0], [0, 0]] [] [[4, 3], [1, 2]]
     [plan_key example_runtime pair_result strided_pair]"
    unfolding run by (simp add: callback_returning_def numeral_2_eq_2)
  with run show ?thesis by simp
qed

text \<open>
  The claim as first stated fails in two ways. Where the plan store refuses a plan: both
  arrays are validated, the second has the expected strides, and yet its bytes \<open>[1, 2]\<close>
  never reach its output buffer, because the copy-out returned at the first slot. And
  where the second conversion of an element differs from the first: the array that was
  validated holds \<open>[1, 2]\<close>, and the output buffer receives \<open>[9, 9]\<close>.
\<close>

theorem validated_array_not_written_counterexample:
  "CallInternal failing_store_runtime
     (callback_returning [pair_result, pair_result]
        (Inr (PyTuple [PyArray strided_pair, PyArray contiguous_pair]))) []
     = Returned (Inr [PyArray strided_pair, PyArray contiguous_pair]) \<and>
   nd_strides contiguous_pair = expected_strides pair_result \<and>
   memcpy [0, 0] (nd_data contiguous_pair) (size_in_bytes pair_result) = Some [1, 2] \<and>
   PrepareAndCallInternal failing_store_runtime
     (callback_returning [pair_result, pair_result]
        (Inr (PyTuple [PyArray strided_pair, PyArray contiguous_pair])))
     [[0, 0], [0, 0]] []
     = Returned (Error (TransposePlanFailure ''invalid options''), [[0, 0], [0, 0]], []) \<and>
   CallInternal reconverting_runtime
     (callback_returning [pair_result] (Inr (PyTuple [PyOther ''an object'']))) []
     = Returned (Inr [PyOther ''an object'']) \<and>
   py_cast_array reconverting_runtime (Validation 0) (PyOther ''an object'') = Inr contiguous_pair \<and>
   PrepareAndCallInternal reconverting_runtime
     (callback_returning [pair_result] (Inr (PyTuple [PyOther ''an object''])))
     [[0, 0]] []
     = Returned (OkStatus, [[9, 9]], [])"
  by (simp add: ex_defs)

subsection \<open>Failures and the status slot (claim C7)\<close>




subsection \<open>TOKEN slots (claim C10)\<close>

text \<open>A \<open>TOKEN\<close> argument is passed to the callable as \<open>None\<close>.\<close>

lemma token_argument_is_None:
  "make_args_loop rt as inputs i = Returned args \<Longrightarrow> k < length as \<Longrightarrow>
   arg_type (as ! k) = TOKEN \<Longrightarrow> args ! k = PyNone"
proof (induction as arbitrary: i args k)
  case Nil
  then show ?case by simp
next
  case (Cons a as)
  from Cons.prems(1) obtain x rest where r: "args = x # rest"
    "make_args_loop rt as inputs (Suc i) = Returned rest"
    "arg_type a = TOKEN \<longrightarrow> x = PyNone"
    by (auto split: if_splits outcome.splits sum.splits)
  show ?case
  proof (cases k)
    case 0
    with Cons.prems(3) r show ?thesis by simp
  next
    case (Suc k')
    with Cons.IH[OF r(2), of k'] Cons.prems(2,3) r(1) show ?thesis by simp
  qed
qed

text \<open>
  The validation loop accepts a \<open>TOKEN\<close> slot exactly when it holds \<open>None\<close>, without
  casting it or looking at its shape.
\<close>

lemma token_slot_accepted_iff_None:
  "res_type r = TOKEN \<Longrightarrow>
   CallInternal_loop rt (r # rs) tup i =
     (if tup ! i = PyNone then CallInternal_loop rt rs tup (Suc i)
      else case py_repr rt (tup ! i) of
             Inl e \<Rightarrow> Thrown e
           | Inr s \<Rightarrow> Returned (Some (TokenOutputNotNone s)))"
  by (simp add: Let_def)

text \<open>
  Claim C10 says that the copy-out step skips a \<open>TOKEN\<close> result. The copy-out loop has no
  test for \<open>TOKEN\<close>: here a callback with a single \<open>TOKEN\<close> slot returns \<open>(None,)\<close>, the
  tuple is validated, and the copy-out casts the \<open>None\<close> to an array and copies
  \<open>size_in_bytes\<close> bytes of it into the output buffer of the slot, which goes from \<open>[0]\<close>
  to \<open>[7]\<close>.
\<close>

theorem token_result_reaches_copy_out:
  "CallInternal example_runtime (callback_returning [token_result] (Inr (PyTuple [PyNone]))) []
     = Returned (Inr [PyNone]) \<and>
   PrepareAndCallInternal example_runtime
     (callback_returning [token_result] (Inr (PyTuple [PyNone]))) [[0]] []
     = Returned (OkStatus, [[7]], [])"
  by (simp add: ex_defs)

section \<open>Properties of the run collector\<close>

lemma runs_in_order_Cons:
  "runs_in_order (r # rs) xs \<longleftrightarrow>
   (\<exists>k\<le>length xs. take (length r) (drop k xs) = r \<and> runs_in_order rs (drop (k + length r) xs))"
  by (simp only: runs_in_order.simps set_upt atLeastLessThan_iff Bex_def less_Suc_eq_le) auto

declare runs_in_order.simps(2) [simp del]

lemma runs_in_order_append:
  "runs_in_order rs xs \<Longrightarrow> runs_in_order rs (pre @ xs)"
proof (cases rs)
  case Nil
  then show ?thesis by simp
next
  case (Cons r rs')
  assume "runs_in_order rs xs"
  with Cons obtain k where k: "k \<le> length xs" "take (length r) (drop k xs) = r"
    "runs_in_order rs' (drop (k + length r) xs)" by (auto simp: runs_in_order_Cons)
  have "length pre + k \<le> length (pre @ xs)" using k(1) by simp
  moreover have "take (length r) (drop (length pre + k) (pre @ xs)) = r" using k(2) by simp
  moreover have "runs_in_order rs' (drop (length pre + k + length r) (pre @ xs))"
    using k(3) by (simp add: add.assoc)
  ultimately show ?thesis unfolding Cons runs_in_order_Cons
    by (intro exI[of _ "length pre + k"]) simp
qed

lemma runs_in_order_close:
  "runs_in_order rs xs \<Longrightarrow> runs_in_order (close_run n cur @ rs) (cur @ xs)"
proof (cases "close_run n cur = []")
  case True
  assume "runs_in_order rs xs"
  with True show ?thesis by (simp add: runs_in_order_append)
next
  case False
  assume rs: "runs_in_order rs xs"
  from False have c: "close_run n cur = [cur]" by (auto simp: close_run_def split: if_splits)
  show ?thesis unfolding c using rs
    by (simp add: runs_in_order_Cons) (intro exI[of _ 0], simp)
qed

lemma collect_runs_in_order:
  "runs_in_order (collect_runs ok n xs cur) (cur @ xs)"
proof (induction xs arbitrary: cur)
  case Nil
  have "runs_in_order (close_run n cur @ []) (cur @ [])"
    by (rule runs_in_order_close) simp
  then show ?case by simp
next
  case (Cons x xs)
  show ?case
  proof (cases "ok x")
    case True
    with Cons[of "cur @ [x]"] show ?thesis by simp
  next
    case False
    have "runs_in_order (collect_runs ok n xs []) (x # xs)"
      using runs_in_order_append[OF Cons[of "[]", simplified], of "[x]"] by simp
    from runs_in_order_close[OF this, of n cur] False show ?thesis by simp
  qed
qed

lemma collect_runs_length:
  "r \<in> set (collect_runs ok n xs cur) \<Longrightarrow> n \<le> int (length r) \<and> r \<noteq> []"
  by (induction xs arbitrary: cur) (auto simp: close_run_def split: if_splits)

lemma runs_in_order_subset:
  "runs_in_order rs xs \<Longrightarrow> set (concat rs) \<subseteq> set xs"
proof (induction rs arbitrary: xs)
  case Nil
  then show ?case by simp
next
  case (Cons r rs)
  then obtain k where k: "take (length r) (drop k xs) = r" "runs_in_order rs (drop (k + length r) xs)"
    by (auto simp: runs_in_order_Cons)
  from k(1) have "set r \<subseteq> set xs"
    by (metis set_drop_subset set_take_subset subset_trans)
  moreover from Cons.IH[OF k(2)] have "set (concat rs) \<subseteq> set xs"
    using set_drop_subset by fastforce
  ultimately show ?case by simp
qed

lemma runs_in_order_distinct:
  "runs_in_order rs xs \<Longrightarrow> distinct xs \<Longrightarrow> distinct (concat rs)"
proof (induction rs arbitrary: xs)
  case Nil
  then show ?case by simp
next
  case (Cons r rs)
  then obtain k where k: "take (length r) (drop k xs) = r" "runs_in_order rs (drop (k + length r) xs)"
    by (auto simp: runs_in_order_Cons)
  let ?post = "drop (k + length r) xs"
  have split: "drop k xs = r @ ?post"
    using k(1) by (metis append_take_drop_id drop_drop add.commute)
  from Cons.prems(2) have d: "distinct (drop k xs)" by simp
  with split have "distinct r" "distinct ?post" "set r \<inter> set ?post = {}" by auto
  moreover from runs_in_order_subset[OF k(2)] have "set (concat rs) \<subseteq> set ?post" .
  moreover from Cons.IH[OF k(2)] \<open>distinct ?post\<close> have "distinct (concat rs)" by simp
  ultimately show ?case by auto
qed

text \<open>
  Claim C2. For every schedule, configuration, processed set and threshold
  \<open>min_num_commands\<close>, the runs that \<open>CollectCommandBufferSequences\<close> emits are contiguous
  blocks of the schedule that do not overlap and come in the order of the schedule, and
  each run has at least \<open>min_num_commands\<close> nodes (at least one with the default of the
  header) and is not empty. In a schedule without repeated nodes, no node is in two runs.
\<close>

theorem collected_runs_disjoint_contiguous_ordered:
  "runs_in_order (CollectCommandBufferSequences s config processed n) s \<and>
   (\<forall>r \<in> set (CollectCommandBufferSequences s config processed n).
      n \<le> int (length r) \<and> r \<noteq> []) \<and>
   (\<forall>r \<in> set (CollectCommandBufferSequences_default s config processed). 1 \<le> length r) \<and>
   (distinct s \<longrightarrow> distinct (concat (CollectCommandBufferSequences s config processed n)))"
proof -
  let ?ok = "is_command config processed"
  have "runs_in_order (collect_runs ?ok n s []) s"
    using collect_runs_in_order[of ?ok n s "[]"] by simp
  moreover have "\<forall>r \<in> set (collect_runs ?ok n s []). n \<le> int (length r) \<and> r \<noteq> []"
    using collect_runs_length[of _ ?ok n s "[]"] by blast
  moreover have "\<forall>r \<in> set (collect_runs ?ok 1 s []). 1 \<le> length r"
    using collect_runs_length[of _ ?ok 1 s "[]"] by fastforce
  moreover have "distinct s \<longrightarrow> distinct (concat (collect_runs ?ok n s []))"
    using runs_in_order_distinct[of "collect_runs ?ok n s []" s]
      collect_runs_in_order[of ?ok n s "[]"] by simp
  ultimately show ?thesis
    by (simp add: CollectCommandBufferSequences_def CollectCommandBufferSequences_default_def)
qed

text \<open>
  The theorem at work: with fusions enabled and the default threshold, the example
  schedule gives the run of the two fusions and the run of the last one.
\<close>

theorem collected_runs_disjoint_contiguous_ordered_witness:
  "CollectCommandBufferSequences example_schedule {''fusion''} {} 1 =
     [[instr 2 ''fusion'' [0, 1], instr 3 ''fusion'' [2, 0]], [instr 5 ''fusion'' [4]]] \<and>
   runs_in_order [[instr 2 ''fusion'' [0, 1], instr 3 ''fusion'' [2, 0]], [instr 5 ''fusion'' [4]]]
     example_schedule \<and>
   distinct example_schedule \<and>
   distinct (concat [[instr 2 ''fusion'' [0, 1], instr 3 ''fusion'' [2, 0]], [instr 5 ''fusion'' [4]]])"
proof -
  have run: "CollectCommandBufferSequences example_schedule {''fusion''} {} 1 =
     [[instr 2 ''fusion'' [0, 1], instr 3 ''fusion'' [2, 0]], [instr 5 ''fusion'' [4]]]"
    by (simp add: CollectCommandBufferSequences_def example_schedule_def instr_def
          is_command_def close_run_def)
  have d: "distinct example_schedule"
    by (simp add: example_schedule_def instr_def)
  from collected_runs_disjoint_contiguous_ordered [of example_schedule "{''fusion''}" "{}" 1] d
  show ?thesis unfolding run by simp
qed

end
